theory Spec2Isabelle
  imports Complex_Main
begin

section \<open>The Mario application (a3\_files/app.py)\<close>

text \<open>
  The development follows \<^verbatim>\<open>app.py\<close>: the module constants and entity factories,
  the class \<^verbatim>\<open>MarioApp\<close> with its level (re)load, key bindings, camera, game loop
  and collision handlers. Objects mutated in place by the Python code are passed and
  returned explicitly. Python floats (positions, velocities, the camera offset) are
  idealised as reals; rounding and NaN are not modelled.
\<close>

subsection \<open>Errors\<close>

datatype error =
    KeyError string       \<comment> \<open>a dictionary lookup \<^verbatim>\<open>D[k]\<close> with \<open>k\<close> missing\<close>
  | LoadError string      \<comment> \<open>the level source could not be loaded\<close>

subsection \<open>Module constants\<close>

definition BLOCK_SIZE :: int where
  "BLOCK_SIZE = 2 ^ 4"

definition BLOCKS :: "(string \<times> string) list" where
  "BLOCKS = [(''#'', ''brick''), (''%'', ''brick_base''), (''?'', ''mystery_empty''),
             (''$'', ''mystery_coin''), (''^'', ''cube'')]"

definition ITEMS :: "(string \<times> string) list" where
  "ITEMS = [(''C'', ''coin'')]"

definition MOBS :: "(string \<times> string) list" where
  "MOBS = [(''&'', ''cloud'')]"

text \<open>\<^verbatim>\<open>D.keys()\<close> and \<^verbatim>\<open>D[k]\<close> for the three tables.\<close>

definition keys :: "(string \<times> string) list \<Rightarrow> string list" where
  "keys d = map fst d"

definition lookup :: "(string \<times> string) list \<Rightarrow> string \<Rightarrow> error + string" where
  "lookup d k = (case map_of d k of None \<Rightarrow> Inl (KeyError k) | Some v \<Rightarrow> Inr v)"

subsection \<open>Game objects\<close>

text \<open>
  The classes of the \<^verbatim>\<open>game\<close> package and \<^verbatim>\<open>player.py\<close> are used by
  \<^verbatim>\<open>app.py\<close> but defined outside it. An object is represented by the constructor
  call that \<^verbatim>\<open>app.py\<close> makes, with the arguments it passes (an omitted keyword
  argument is \<open>None\<close>).
\<close>

datatype block =
    Block string                                        \<comment> \<open>\<^verbatim>\<open>Block(block_id)\<close>\<close>
  | MysteryBlock "string option" "(int \<times> int) option"    \<comment> \<open>\<^verbatim>\<open>MysteryBlock(drop=, drop_range=)\<close>\<close>

datatype item =
    Coin                                                \<comment> \<open>\<^verbatim>\<open>Coin()\<close>\<close>
  | DroppedItem string                                  \<comment> \<open>\<^verbatim>\<open>DroppedItem(item_id)\<close>\<close>

datatype mob =
    CloudMob                                            \<comment> \<open>\<^verbatim>\<open>CloudMob()\<close>\<close>
  | Fireball                                            \<comment> \<open>\<^verbatim>\<open>Fireball()\<close>\<close>
  | Mob string "int \<times> int"                             \<comment> \<open>\<^verbatim>\<open>Mob(mob_id, size=)\<close>\<close>

datatype entity = Entity                                \<comment> \<open>\<^verbatim>\<open>Entity()\<close>\<close>

text \<open>
  Python objects have an identity: two bricks built by two calls of \<^verbatim>\<open>Block("brick")\<close>
  are different objects, and the world removes the one it is given. An object is
  therefore a pair of a reference and its value.
\<close>

type_synonym 'a obj = "nat \<times> 'a"

text \<open>
  Modelled from the spec: \<^verbatim>\<open>get_id()\<close> of the entity classes, which are defined in the
  \<^verbatim>\<open>game\<close> package. An entity has ``a type identifier (e.g. "brick", "coin", "cloud",
  "fireball")''; a plain block or mob has the identifier it was built with. The
  identifier of a mystery block is a class constant that \<^verbatim>\<open>app.py\<close> never mentions;
  the handlers only ever compare a block's identifier with \<^verbatim>\<open>"brick"\<close>.
\<close>

fun block_get_id :: "block \<Rightarrow> string" where
  "block_get_id (Block block_id) = block_id"
| "block_get_id (MysteryBlock drp drp_range) = ''mystery''"

fun mob_get_id :: "mob \<Rightarrow> string" where
  "mob_get_id CloudMob = ''cloud''"
| "mob_get_id Fireball = ''fireball''"
| "mob_get_id (Mob mob_id sz) = mob_id"

subsection \<open>The player\<close>

record player =
  health :: int
  max_health :: int
  velocity :: "real \<times> real"
  position :: "real \<times> real"

text \<open>
  Modelled from the spec: the methods of \<^verbatim>\<open>Player\<close> (\<^verbatim>\<open>player.py\<close>). ``Player health
  \<open>\<in>\<close> [0, max\_health]'' and ``health changes only via explicit calls'':
  \<^verbatim>\<open>change_health\<close> adds its argument to the health and keeps the result within the
  bounds. A new player starts at full health and at rest.
\<close>

definition Player :: "int \<Rightarrow> player" where
  "Player mh = \<lparr>health = mh, max_health = mh, velocity = (0, 0), position = (0, 0)\<rparr>"

definition get_health :: "player \<Rightarrow> int" where
  "get_health p = health p"

definition get_max_health :: "player \<Rightarrow> int" where
  "get_max_health p = max_health p"

definition change_health :: "player \<Rightarrow> int \<Rightarrow> player" where
  "change_health p change =
     (let h = health p + change;
          h = (if h < 0 then 0 else h);
          h = (if h > max_health p then max_health p else h)
      in p\<lparr>health := h\<rparr>)"

definition set_velocity :: "player \<Rightarrow> real \<times> real \<Rightarrow> player" where
  "set_velocity p v = p\<lparr>velocity := v\<rparr>"

definition get_position :: "player \<Rightarrow> real \<times> real" where
  "get_position p = position p"

subsection \<open>The world\<close>

text \<open>
  Modelled from the spec: the class \<^verbatim>\<open>World\<close> (\<^verbatim>\<open>game/world.py\<close>), the ``World
  Facade'' that ``holds all entities, exposes add/remove per category'' and ``hosts the
  collision-handler registration table''. Each category is a list of objects with the
  position they were added at; \<open>things\<close> holds the entities added without a category,
  with their size. ``Removal operations are idempotent -- removing an already-removed
  entity is a no-op.'' The field \<open>next_ref\<close> is the reference the next object gets.
\<close>

datatype handler =
    HandlePlayerCollideItem
  | HandlePlayerCollideBlock
  | HandlePlayerSeparateBlock
  | HandlePlayerCollideMob
  | HandleMobCollideBlock
  | HandleMobCollideMob
  | HandleMobCollideItem

record collision_rule =
  category_a :: string
  category_b :: string
  on_begin :: "handler option"
  on_separate :: "handler option"

record world =
  pixel_size :: "int \<times> int"
  gravity :: "int \<times> int"
  blocks :: "(block obj \<times> int \<times> int) list"
  items :: "(item obj \<times> int \<times> int) list"
  mobs :: "(mob obj \<times> int \<times> int) list"
  things :: "(entity obj \<times> (int \<times> int) \<times> (int \<times> int)) list"
  player_at :: "(int \<times> int) option"
  rules :: "collision_rule list"
  next_ref :: nat

definition World :: "int \<times> int \<Rightarrow> int \<times> int \<Rightarrow> world" where
  "World sz g = \<lparr>pixel_size = sz, gravity = g, blocks = [], items = [], mobs = [],
                   things = [], player_at = None, rules = [], next_ref = 0\<rparr>"

definition get_pixel_size :: "world \<Rightarrow> int \<times> int" where
  "get_pixel_size w = pixel_size w"

definition add_block :: "world \<Rightarrow> block \<Rightarrow> int \<Rightarrow> int \<Rightarrow> world" where
  "add_block w b x y =
     w\<lparr>blocks := blocks w @ [((next_ref w, b), (x, y))], next_ref := Suc (next_ref w)\<rparr>"

definition add_item :: "world \<Rightarrow> item \<Rightarrow> int \<Rightarrow> int \<Rightarrow> world" where
  "add_item w i x y =
     w\<lparr>items := items w @ [((next_ref w, i), (x, y))], next_ref := Suc (next_ref w)\<rparr>"

definition add_mob :: "world \<Rightarrow> mob \<Rightarrow> int \<Rightarrow> int \<Rightarrow> world" where
  "add_mob w m x y =
     w\<lparr>mobs := mobs w @ [((next_ref w, m), (x, y))], next_ref := Suc (next_ref w)\<rparr>"

definition add_thing :: "world \<Rightarrow> entity \<Rightarrow> int \<Rightarrow> int \<Rightarrow> int \<times> int \<Rightarrow> world" where
  "add_thing w e x y sz =
     w\<lparr>things := things w @ [((next_ref w, e), (x, y), sz)], next_ref := Suc (next_ref w)\<rparr>"

definition add_player :: "world \<Rightarrow> player \<Rightarrow> int \<Rightarrow> int \<Rightarrow> world \<times> player" where
  "add_player w p x y =
     (w\<lparr>player_at := Some (x, y)\<rparr>, p\<lparr>position := (real_of_int x, real_of_int y)\<rparr>)"

definition remove_block :: "world \<Rightarrow> block obj \<Rightarrow> world" where
  "remove_block w b = w\<lparr>blocks := filter (\<lambda>e. fst (fst e) \<noteq> fst b) (blocks w)\<rparr>"

definition remove_item :: "world \<Rightarrow> item obj \<Rightarrow> world" where
  "remove_item w i = w\<lparr>items := filter (\<lambda>e. fst (fst e) \<noteq> fst i) (items w)\<rparr>"

definition remove_mob :: "world \<Rightarrow> mob obj \<Rightarrow> world" where
  "remove_mob w m = w\<lparr>mobs := filter (\<lambda>e. fst (fst e) \<noteq> fst m) (mobs w)\<rparr>"

text \<open>Whether an object is in the world, by reference.\<close>

definition has_block :: "world \<Rightarrow> block obj \<Rightarrow> bool" where
  "has_block w b \<longleftrightarrow> fst b \<in> set (map (\<lambda>e. fst (fst e)) (blocks w))"

definition has_item :: "world \<Rightarrow> item obj \<Rightarrow> bool" where
  "has_item w i \<longleftrightarrow> fst i \<in> set (map (\<lambda>e. fst (fst e)) (items w))"

definition has_mob :: "world \<Rightarrow> mob obj \<Rightarrow> bool" where
  "has_mob w m \<longleftrightarrow> fst m \<in> set (map (\<lambda>e. fst (fst e)) (mobs w))"

definition add_collision_handler ::
  "world \<Rightarrow> string \<Rightarrow> string \<Rightarrow> handler option \<Rightarrow> handler option \<Rightarrow> world" where
  "add_collision_handler w a b beg sep =
     w\<lparr>rules := rules w @ [\<lparr>category_a = a, category_b = b,
                             on_begin = beg, on_separate = sep\<rparr>]\<rparr>"

subsection \<open>Entity factories\<close>

text \<open>
  The four module-level factories. A factory receives the world, the level symbol and
  the grid coordinates; \<^verbatim>\<open>BLOCKS[block_id]\<close> raises \<^verbatim>\<open>KeyError\<close> on a symbol that is
  not in the table.
\<close>

definition create_block :: "world \<Rightarrow> string \<Rightarrow> int \<Rightarrow> int \<Rightarrow> error + world" where
  "create_block w block_id x y =
     (case lookup BLOCKS block_id of
        Inl e \<Rightarrow> Inl e
      | Inr block_id \<Rightarrow>
          (let block = (if block_id = ''mystery_empty'' then MysteryBlock None None
                        else if block_id = ''mystery_coin''
                          then MysteryBlock (Some ''coin'') (Some (3, 6))
                        else Block block_id)
           in Inr (add_block w block (x * BLOCK_SIZE) (y * BLOCK_SIZE))))"

definition create_item :: "world \<Rightarrow> string \<Rightarrow> int \<Rightarrow> int \<Rightarrow> error + world" where
  "create_item w item_id x y =
     (case lookup ITEMS item_id of
        Inl e \<Rightarrow> Inl e
      | Inr item_id \<Rightarrow>
          (let item = (if item_id = ''coin'' then Coin else DroppedItem item_id)
           in Inr (add_item w item (x * BLOCK_SIZE) (y * BLOCK_SIZE))))"

definition create_mob :: "world \<Rightarrow> string \<Rightarrow> int \<Rightarrow> int \<Rightarrow> error + world" where
  "create_mob w mob_id x y =
     (case lookup MOBS mob_id of
        Inl e \<Rightarrow> Inl e
      | Inr mob_id \<Rightarrow>
          (let mob = (if mob_id = ''cloud'' then CloudMob
                      else if mob_id = ''fireball'' then Fireball
                      else Mob mob_id (1, 1))
           in Inr (add_mob w mob (x * BLOCK_SIZE) (y * BLOCK_SIZE))))"

definition create_unknown :: "world \<Rightarrow> string \<Rightarrow> int \<Rightarrow> int \<Rightarrow> error + world" where
  "create_unknown w entity_id x y =
     Inr (add_thing w Entity (x * BLOCK_SIZE) (y * BLOCK_SIZE) (BLOCK_SIZE, BLOCK_SIZE))"

subsection \<open>The world builder\<close>

text \<open>
  Modelled from the spec: the class \<^verbatim>\<open>WorldBuilder\<close> and the function
  \<^verbatim>\<open>load_world\<close> (\<^verbatim>\<open>level.py\<close>), the ``Entity Registry''.
  ``\<^verbatim>\<open>register(symbol_set, factory)\<close> associates each symbol in a set with a factory
  function; \<^verbatim>\<open>build(symbol, x, y)\<close> looks up the factory for \<^verbatim>\<open>symbol\<close> and invokes it
  with the placement coordinates, falling back to a generic "unknown entity" factory if
  no match exists.'' The level source is ``consumed as a stream of (symbol, x, y)
  placements''; a name without a level is a ``missing/invalid level source'', ``surfaced
  as a load failure to the caller''. \<^verbatim>\<open>clear\<close> empties the registry.
\<close>

datatype factory = CreateBlock | CreateItem | CreateMob | CreateUnknown

fun run_factory :: "factory \<Rightarrow> world \<Rightarrow> string \<Rightarrow> int \<Rightarrow> int \<Rightarrow> error + world" where
  "run_factory CreateBlock = create_block"
| "run_factory CreateItem = create_item"
| "run_factory CreateMob = create_mob"
| "run_factory CreateUnknown = create_unknown"

record world_builder =
  block_size :: int
  builder_gravity :: "int \<times> int"
  fallback :: factory
  builders :: "string \<rightharpoonup> factory"

definition WorldBuilder :: "int \<Rightarrow> int \<times> int \<Rightarrow> factory \<Rightarrow> world_builder" where
  "WorldBuilder bs g fb =
     \<lparr>block_size = bs, builder_gravity = g, fallback = fb, builders = Map.empty\<rparr>"

definition register_builders :: "string list \<Rightarrow> factory \<Rightarrow> world_builder \<Rightarrow> world_builder" where
  "register_builders ids f b = b\<lparr>builders := fold (\<lambda>k m. m(k \<mapsto> f)) ids (builders b)\<rparr>"

definition clear :: "world_builder \<Rightarrow> world_builder" where
  "clear b = b\<lparr>builders := Map.empty\<rparr>"

definition on_placement ::
  "world_builder \<Rightarrow> world \<Rightarrow> string \<Rightarrow> int \<Rightarrow> int \<Rightarrow> error + world" where
  "on_placement b w symbol grid_x grid_y =
     (case builders b symbol of
        Some f \<Rightarrow> run_factory f w symbol grid_x grid_y
      | None \<Rightarrow> run_factory (fallback b) w symbol grid_x grid_y)"

record level =
  level_size :: "int \<times> int"
  placements :: "(string \<times> int \<times> int) list"

type_synonym level_source = "string \<Rightarrow> level option"

fun place_all ::
  "world_builder \<Rightarrow> world \<Rightarrow> (string \<times> int \<times> int) list \<Rightarrow> error + world" where
  "place_all b w [] = Inr w"
| "place_all b w ((symbol, grid_x, grid_y) # ps) =
     (case on_placement b w symbol grid_x grid_y of
        Inl e \<Rightarrow> Inl e
      | Inr w' \<Rightarrow> place_all b w' ps)"

definition load_world :: "level_source \<Rightarrow> world_builder \<Rightarrow> string \<Rightarrow> error + world" where
  "load_world src b name =
     (case src name of
        None \<Rightarrow> Inl (LoadError name)
      | Some lv \<Rightarrow> place_all b (World (level_size lv) (builder_gravity b)) (placements lv))"

subsection \<open>The application state\<close>

text \<open>
  The attributes of \<^verbatim>\<open>MarioApp\<close>. \<open>master_width\<close> is what
  \<^verbatim>\<open>self._master.winfo_width()\<close> returns, \<open>offset\<close> is the offset held by the game
  view, and \<open>death_popups\<close> counts the windows opened by \<^verbatim>\<open>on_death\<close>.
\<close>

record app =
  master_width :: int
  builder :: world_builder
  player :: player
  world :: world
  level_holder :: string
  offset :: "real \<times> real"
  death_action :: bool
  death_popups :: nat

subsection \<open>Collision handlers\<close>

text \<open>\<^verbatim>\<open>MarioApp._setup_collision_handlers\<close>: six registrations on the current world.\<close>

definition setup_collision_handlers :: "app \<Rightarrow> app" where
  "setup_collision_handlers a =
     (let w = world a;
          w = add_collision_handler w ''player'' ''item'' (Some HandlePlayerCollideItem) None;
          w = add_collision_handler w ''player'' ''block'' (Some HandlePlayerCollideBlock)
                (Some HandlePlayerSeparateBlock);
          w = add_collision_handler w ''player'' ''mob'' (Some HandlePlayerCollideMob) None;
          w = add_collision_handler w ''mob'' ''block'' (Some HandleMobCollideBlock) None;
          w = add_collision_handler w ''mob'' ''mob'' (Some HandleMobCollideMob) None;
          w = add_collision_handler w ''mob'' ''item'' (Some HandleMobCollideItem) None
      in a\<lparr>world := w\<rparr>)"

text \<open>
  Each handler takes the application and the two objects of the contact, and returns
  the application with the boolean handed back to the physics engine. No handler reads
  its \<^verbatim>\<open>data\<close> argument, and the \<^verbatim>\<open>arbiter\<close> is at most handed on to \<^verbatim>\<open>on_hit\<close>.
\<close>

definition handle_mob_collide_block :: "app \<Rightarrow> mob obj \<Rightarrow> block obj \<Rightarrow> app \<times> bool" where
  "handle_mob_collide_block a mob block =
     (if mob_get_id (snd mob) = ''fireball''
      then (let a = (if block_get_id (snd block) = ''brick''
                     then a\<lparr>world := remove_block (world a) block\<rparr> else a);
                a = a\<lparr>world := remove_mob (world a) mob\<rparr>
            in (a, True))
      else (a, True))"

definition handle_mob_collide_item :: "app \<Rightarrow> mob obj \<Rightarrow> item obj \<Rightarrow> app \<times> bool" where
  "handle_mob_collide_item a mob block = (a, False)"

definition handle_mob_collide_mob :: "app \<Rightarrow> mob obj \<Rightarrow> mob obj \<Rightarrow> app \<times> bool" where
  "handle_mob_collide_mob a mob1 mob2 =
     (if mob_get_id (snd mob1) = ''fireball'' \<or> mob_get_id (snd mob2) = ''fireball''
      then (let a = a\<lparr>world := remove_mob (world a) mob1\<rparr>;
                a = a\<lparr>world := remove_mob (world a) mob2\<rparr>
            in (a, False))
      else (a, False))"

text \<open>
  \<^verbatim>\<open>dropped_item.collect(self._player)\<close> is a method of the item classes, defined outside
  \<^verbatim>\<open>app.py\<close>: the pickup effect \<open>collect\<close> is a parameter. The handler applies it to the
  application's own player, not to its \<^verbatim>\<open>player\<close> argument.
\<close>

definition handle_player_collide_item ::
  "(item obj \<Rightarrow> player \<Rightarrow> player) \<Rightarrow> app \<Rightarrow> player \<Rightarrow> item obj \<Rightarrow> app \<times> bool" where
  "handle_player_collide_item collect a player_arg dropped_item =
     (let a = a\<lparr>player := collect dropped_item (player a)\<rparr>;
          a = a\<lparr>world := remove_item (world a) dropped_item\<rparr>
      in (a, False))"

text \<open>
  \<^verbatim>\<open>on_hit\<close> is a method of the block and mob classes, defined outside \<^verbatim>\<open>app.py\<close>, and
  is a parameter. It is called with the world of the application and with the
  \<^verbatim>\<open>player\<close> argument of the handler, and may change both: the handler returns the
  application with the world as \<^verbatim>\<open>on_hit\<close> leaves it, the \<^verbatim>\<open>player\<close> argument as
  \<^verbatim>\<open>on_hit\<close> leaves it, and the boolean.
\<close>

definition handle_player_collide_block ::
  "(block obj \<Rightarrow> world \<times> player \<Rightarrow> world \<times> player) \<Rightarrow>
     app \<Rightarrow> player \<Rightarrow> block obj \<Rightarrow> (app \<times> player) \<times> bool" where
  "handle_player_collide_block on_hit a player_arg block =
     (let (w, p) = on_hit block (world a, player_arg) in ((a\<lparr>world := w\<rparr>, p), True))"

definition handle_player_collide_mob ::
  "(mob obj \<Rightarrow> world \<times> player \<Rightarrow> world \<times> player) \<Rightarrow>
     app \<Rightarrow> player \<Rightarrow> mob obj \<Rightarrow> (app \<times> player) \<times> bool" where
  "handle_player_collide_mob on_hit a player_arg mob =
     (let (w, p) = on_hit mob (world a, player_arg) in ((a\<lparr>world := w\<rparr>, p), True))"

definition handle_player_separate_block :: "app \<Rightarrow> player \<Rightarrow> block obj \<Rightarrow> app \<times> bool" where
  "handle_player_separate_block a player_arg block = (a, True)"

subsection \<open>Level (re)load\<close>

text \<open>
  \<^verbatim>\<open>MarioApp.reset_world\<close>. An exception of \<^verbatim>\<open>load_world\<close> leaves the method at its
  first statement, before any attribute is assigned.
\<close>

definition reset_world :: "level_source \<Rightarrow> app \<Rightarrow> string \<Rightarrow> error + app" where
  "reset_world src a new_level =
     (case load_world src (builder a) new_level of
        Inl e \<Rightarrow> Inl e
      | Inr w \<Rightarrow>
          (let (w, p) = add_player w (player a) BLOCK_SIZE BLOCK_SIZE;
               a = a\<lparr>world := w, player := p\<rparr>;
               a = a\<lparr>builder := clear (builder a)\<rparr>;
               a = setup_collision_handlers a;
               a = a\<lparr>level_holder := new_level\<rparr>;
               a = a\<lparr>death_action := False\<rparr>;
               a = a\<lparr>player := change_health (player a) (get_max_health (player a))\<rparr>
           in Inr a))"

subsection \<open>Key bindings\<close>

definition move :: "app \<Rightarrow> real \<Rightarrow> real \<Rightarrow> app" where
  "move a dx dy = a\<lparr>player := set_velocity (player a) (dx, dy)\<rparr>"

definition jump :: "app \<Rightarrow> app" where
  "jump a = a\<lparr>player := set_velocity (player a) (0, - 150)\<rparr>"

definition duck :: "app \<Rightarrow> app \<times> bool" where
  "duck a = (a, True)"

text \<open>\<^verbatim>\<open>MarioApp.bind\<close>: the thirteen key events and the handler bound to each.\<close>

datatype key =
    Key_Up | Key_space | Key_w | Key_W
  | Key_a | Key_Left | Key_A
  | Key_s | Key_Down | Key_S
  | Key_d | Key_Right | Key_D

fun bind :: "key \<Rightarrow> app \<Rightarrow> app" where
  "bind Key_Up a = jump a"
| "bind Key_space a = jump a"
| "bind Key_w a = jump a"
| "bind Key_W a = jump a"
| "bind Key_a a = move a (- 50) 0"
| "bind Key_Left a = move a (- 500) 0"
| "bind Key_A a = move a (- 500) 0"
| "bind Key_s a = fst (duck a)"
| "bind Key_Down a = fst (duck a)"
| "bind Key_S a = fst (duck a)"
| "bind Key_d a = move a 50 0"
| "bind Key_Right a = move a 500 0"
| "bind Key_D a = move a 500 0"

subsection \<open>The camera\<close>

text \<open>
  \<^verbatim>\<open>MarioApp.scroll\<close>. The three branches are an \<^verbatim>\<open>if\<close>/\<^verbatim>\<open>elif\<close>/\<^verbatim>\<open>elif\<close>
  chain without a final \<^verbatim>\<open>else\<close>: when none applies the offset is left as it is.
\<close>

definition set_offset :: "app \<Rightarrow> real \<times> real \<Rightarrow> app" where
  "set_offset a off = a\<lparr>offset := off\<rparr>"

definition scroll :: "app \<Rightarrow> app" where
  "scroll a =
     (let x_position = fst (get_position (player a));
          half_screen = real_of_int (master_width a) / 2;
          world_size = real_of_int (fst (get_pixel_size (world a))) - half_screen
      in if x_position \<le> half_screen then set_offset a (0, 0)
         else if half_screen \<le> x_position \<and> x_position \<le> world_size
           then set_offset a (half_screen - x_position, 0)
         else if x_position \<ge> world_size then set_offset a (half_screen - world_size, 0)
         else a)"

subsection \<open>The game loop\<close>

text \<open>
  \<^verbatim>\<open>self._world.step(data)\<close> runs the physics engine and, through it, the collision
  handlers: it works on the world and the player it is given and is a parameter here.
  \<^verbatim>\<open>redraw\<close> only draws, and \<^verbatim>\<open>self._master.after(10, self.step)\<close> schedules the
  next tick; neither changes the state below.
\<close>

type_synonym physics = "world \<times> player \<Rightarrow> world \<times> player"

definition on_death :: "app \<Rightarrow> app" where
  "on_death a = (let a = a\<lparr>death_action := True\<rparr> in a\<lparr>death_popups := Suc (death_popups a)\<rparr>)"

definition step :: "physics \<Rightarrow> app \<Rightarrow> app" where
  "step ph a =
     (let (w, p) = ph (world a, player a);
          a = a\<lparr>world := w, player := p\<rparr>;
          a = scroll a
      in if get_health (player a) = 0
         then (if \<not> death_action a then on_death a else a)
         else a)"

text \<open>A run of the loop, one physics step per tick.\<close>

fun ticks :: "physics list \<Rightarrow> app \<Rightarrow> app" where
  "ticks [] a = a"
| "ticks (ph # phs) a = ticks phs (step ph a)"

text \<open>The player's health is 0 at the check of every tick of a run.\<close>

fun stays_dead :: "physics list \<Rightarrow> app \<Rightarrow> bool" where
  "stays_dead [] a = True"
| "stays_dead (ph # phs) a =
     (get_health (player (step ph a)) = 0 \<and> stays_dead phs (step ph a))"

subsection \<open>Construction\<close>

text \<open>
  \<^verbatim>\<open>MarioApp.__init__\<close>. The builder gets the fallback factory and one registration
  per table; the first level is loaded, the loop is started with one tick, and the
  death flag is cleared. The attributes that \<^verbatim>\<open>reset_world\<close> assigns do not exist
  before it runs; the values given to them here are never read.
\<close>

definition mario_builder :: world_builder where
  "mario_builder =
     (let world_builder = WorldBuilder BLOCK_SIZE (0, 300) CreateUnknown;
          world_builder = register_builders (keys BLOCKS) CreateBlock world_builder;
          world_builder = register_builders (keys ITEMS) CreateItem world_builder;
          world_builder = register_builders (keys MOBS) CreateMob world_builder
      in world_builder)"

definition MarioApp :: "level_source \<Rightarrow> physics \<Rightarrow> int \<Rightarrow> error + app" where
  "MarioApp src ph width =
     (let a = \<lparr>master_width = width, builder = mario_builder, player = Player 5,
               world = World (0, 0) (0, 0), level_holder = [], offset = (0, 0),
               death_action = False, death_popups = 0\<rparr>
      in case reset_world src a ''level1.txt'' of
           Inl e \<Rightarrow> Inl e
         | Inr a \<Rightarrow>
             (let a = a\<lparr>level_holder := ''level1.txt''\<rparr>;
                  a = step ph a;
                  a = a\<lparr>death_action := False\<rparr>
              in Inr a))"

subsection \<open>Sample inputs\<close>

text \<open>
  A small level, a level source that knows it under the name of the default level, a
  physics step that changes nothing and one that leaves the player without health, a
  pickup effect that gives one point of health, and an application in a window 800 wide
  whose world holds a few objects of each kind.
\<close>

definition level1 :: level where
  "level1 = \<lparr>level_size = (3200, 480),
             placements = [(''#'', 0, 10), (''%'', 1, 10), (''?'', 3, 6), (''$'', 4, 6),
                           (''C'', 5, 5), (''&'', 7, 2), (''x'', 8, 8)]\<rparr>"

definition sample_source :: level_source where
  "sample_source name = (if name = ''level1.txt'' then Some level1 else None)"

definition idle :: physics where
  "idle wp = wp"

definition lethal :: physics where
  "lethal wp = (fst wp, (snd wp)\<lparr>health := 0\<rparr>)"

definition sample_world :: world where
  "sample_world =
     \<lparr>pixel_size = (3200, 480), gravity = (0, 300),
      blocks = [((0, Block ''brick''), (0, 160)), ((1, Block ''brick_base''), (16, 160)),
                ((2, MysteryBlock None None), (48, 96))],
      items = [((3, Coin), (80, 80)), ((8, DroppedItem ''star''), (96, 80))],
      mobs = [((4, CloudMob), (112, 32)), ((5, Fireball), (64, 64)), ((6, Fireball), (96, 64))],
      things = [((7, Entity), (128, 128), (16, 16))],
      player_at = Some (16, 16), rules = [], next_ref = 9\<rparr>"

definition sample_collect :: "item obj \<Rightarrow> player \<Rightarrow> player" where
  "sample_collect i p = change_health p 1"

definition sample_app :: app where
  "sample_app =
     \<lparr>master_width = 800, builder = clear mario_builder,
      player = \<lparr>health = 3, max_health = 5, velocity = (50, 20), position = (100, 16)\<rparr>,
      world = sample_world, level_holder = ''level1.txt'', offset = (0, 0),
      death_action = False, death_popups = 0\<rparr>"

text \<open>The sample application seen by a camera: window width, world width, player.\<close>

definition camera_app :: "int \<Rightarrow> int \<Rightarrow> real \<Rightarrow> app" where
  "camera_app vw ww px =
     sample_app\<lparr>master_width := vw,
                world := (world sample_app)\<lparr>pixel_size := (ww, 480)\<rparr>,
                player := (player sample_app)\<lparr>position := (px, 16)\<rparr>\<rparr>"

text \<open>
  The sample application after a tick that kills the player and an idle one, and after
  the reload of the default level that follows.
\<close>

definition dead_app :: app where
  "dead_app = ticks [lethal, idle] sample_app"

definition reloaded_app :: app where
  "reloaded_app =
     (case reset_world sample_source dead_app ''level1.txt'' of Inr a \<Rightarrow> a | Inl e \<Rightarrow> dead_app)"

text \<open>
  The application as the constructor returns it when already its first tick leaves the
  player without health.
\<close>

definition started_app :: app where
  "started_app =
     (case MarioApp sample_source lethal 800 of Inr a \<Rightarrow> a | Inl e \<Rightarrow> sample_app)"

section \<open>Properties\<close>

subsection \<open>The camera offset\<close>

text \<open>What \<^verbatim>\<open>scroll\<close> leaves in the view: one of the three branches always applies.\<close>

lemma scroll_offset_cases:
  "offset (scroll a) =
     (let px = fst (position (player a)); half = real_of_int (master_width a) / 2;
          ws = real_of_int (fst (pixel_size (world a))) - half
      in if px \<le> half then (0, 0) else if px \<le> ws then (half - px, 0) else (half - ws, 0))"
  by (simp add: scroll_def Let_def set_offset_def get_position_def get_pixel_size_def)

text \<open>
  C1, as amended. For a window \<open>vw\<close> wide, a world \<open>ww\<close> wide and the player at \<open>px\<close>:
  the offset is 0 for every \<open>px \<le> vw/2\<close>; it is \<open>vw/2 - px\<close> for every \<open>px\<close> with
  \<open>vw/2 \<le> px \<le> ww - vw/2\<close>; it is \<open>vw/2 - (ww - vw/2)\<close> for every
  \<open>px \<ge> ww - vw/2\<close> when the window is not wider than the world (\<open>vw \<le> ww\<close>) or the
  player is right of the window's middle (\<open>px > vw/2\<close>), the left clamp coming first
  otherwise. With \<open>vw = 800\<close> and \<open>ww = 3200\<close> the offsets at 100, 1000 and 3100 are 0,
  -600 and -2400. The vertical component is always 0.
\<close>

theorem scroll_offset:
  assumes "master_width a = vw" and "fst (pixel_size (world a)) = ww"
    and "fst (position (player a)) = px"
  shows "(px \<le> real_of_int vw / 2 \<longrightarrow> offset (scroll a) = (0, 0))
       \<and> (real_of_int vw / 2 \<le> px \<and> px \<le> real_of_int ww - real_of_int vw / 2
            \<longrightarrow> offset (scroll a) = (real_of_int vw / 2 - px, 0))
       \<and> (px \<ge> real_of_int ww - real_of_int vw / 2 \<and> (vw \<le> ww \<or> real_of_int vw / 2 < px)
            \<longrightarrow> offset (scroll a) =
                  (real_of_int vw / 2 - (real_of_int ww - real_of_int vw / 2), 0))
       \<and> (vw = 800 \<and> ww = 3200 \<longrightarrow>
            (px = 100 \<longrightarrow> offset (scroll a) = (0, 0))
          \<and> (px = 1000 \<longrightarrow> offset (scroll a) = (- 600, 0))
          \<and> (px = 3100 \<longrightarrow> offset (scroll a) = (- 2400, 0)))
       \<and> snd (offset (scroll a)) = 0"
  using assms by (auto simp: scroll_offset_cases Let_def)

theorem scroll_offset_witness:
  "master_width (camera_app 800 3200 3100) = 800
   \<and> fst (pixel_size (world (camera_app 800 3200 3100))) = 3200
   \<and> fst (position (player (camera_app 800 3200 3100))) = 3100
   \<and> (3100::real) \<ge> real_of_int 3200 - real_of_int 800 / 2 \<and> (800::int) \<le> 3200
   \<and> offset (scroll (camera_app 800 3200 3100)) = (- 2400, 0)
   \<and> master_width (camera_app 800 3200 1000) = 800
   \<and> fst (pixel_size (world (camera_app 800 3200 1000))) = 3200
   \<and> fst (position (player (camera_app 800 3200 1000))) = 1000
   \<and> real_of_int 800 / 2 \<le> (1000::real) \<and> (1000::real) \<le> real_of_int 3200 - real_of_int 800 / 2
   \<and> offset (scroll (camera_app 800 3200 1000)) = (- 600, 0)
   \<and> master_width (camera_app 800 3200 100) = 800
   \<and> fst (pixel_size (world (camera_app 800 3200 100))) = 3200
   \<and> fst (position (player (camera_app 800 3200 100))) = 100
   \<and> (100::real) \<le> real_of_int 800 / 2
   \<and> offset (scroll (camera_app 800 3200 100)) = (0, 0)"
  using scroll_offset [of "camera_app 800 3200 3100" 800 3200 3100]
    scroll_offset [of "camera_app 800 3200 1000" 800 3200 1000]
    scroll_offset [of "camera_app 800 3200 100" 800 3200 100]
  by (simp add: camera_app_def sample_app_def sample_world_def)

text \<open>
  C1 as stated fails twice. Its example for the right clamp is off: with \<open>vw = 800\<close> and
  \<open>ww = 3200\<close> the player at 3100 is right of \<open>ww - vw/2 = 2800\<close>, and the offset is
  \<open>400 - 2800 = -2400\<close>, not -2800. And in a window wider than the world (\<open>vw = 800\<close>,
  \<open>ww = 400\<close>) the player at 100 is right of \<open>ww - vw/2 = 0\<close>, yet the offset is 0, not
  \<open>vw/2 - (ww - vw/2) = 400\<close>.
\<close>

theorem scroll_offset_counterexample:
  "(3100::real) \<ge> real_of_int 3200 - real_of_int 800 / 2
   \<and> offset (scroll (camera_app 800 3200 3100)) = (- 2400, 0)
   \<and> offset (scroll (camera_app 800 3200 3100)) \<noteq> (- 2800, 0)
   \<and> (100::real) \<ge> real_of_int 400 - real_of_int 800 / 2
   \<and> offset (scroll (camera_app 800 400 100)) = (0, 0)
   \<and> offset (scroll (camera_app 800 400 100))
        \<noteq> (real_of_int 800 / 2 - (real_of_int 400 - real_of_int 800 / 2), 0)"
  by (simp add: scroll_def Let_def set_offset_def get_position_def get_pixel_size_def
        camera_app_def sample_app_def sample_world_def)

subsection \<open>Collision handlers\<close>

text \<open>What a removal does to the presence of an object.\<close>

lemma has_mob_remove_mob:
  "has_mob (remove_mob w m) m' \<longleftrightarrow> has_mob w m' \<and> fst m' \<noteq> fst m"
  by (auto simp: has_mob_def remove_mob_def)

lemma has_block_remove_block:
  "has_block (remove_block w b) b' \<longleftrightarrow> has_block w b' \<and> fst b' \<noteq> fst b"
  by (auto simp: has_block_def remove_block_def)

lemma has_item_remove_item:
  "has_item (remove_item w i) i' \<longleftrightarrow> has_item w i' \<and> fst i' \<noteq> fst i"
  by (auto simp: has_item_def remove_item_def)

lemma has_block_remove_mob: "has_block (remove_mob w m) b = has_block w b"
  by (simp add: has_block_def remove_mob_def)

lemma has_mob_remove_block: "has_mob (remove_block w b) m = has_mob w m"
  by (simp add: has_mob_def remove_block_def)

lemma blocks_remove_mob: "blocks (remove_mob w m) = blocks w"
  by (simp add: remove_mob_def)

lemma handle_mob_collide_block_world:
  "world (fst (handle_mob_collide_block a mob block)) =
     (if mob_get_id (snd mob) = ''fireball''
      then remove_mob (if block_get_id (snd block) = ''brick''
                       then remove_block (world a) block else world a) mob
      else world a)"
  by (simp add: handle_mob_collide_block_def Let_def)

lemma handle_mob_collide_block_returns: "snd (handle_mob_collide_block a mob block) = True"
  by (simp add: handle_mob_collide_block_def Let_def)

text \<open>
  C2. At a mob--block contact the handler returns true in every case. When the mob's
  identifier is \<^verbatim>\<open>"fireball"\<close> the mob is no longer in the world and every other mob
  is as before; the block, if it was in the world, is gone afterwards exactly when its
  identifier is \<^verbatim>\<open>"brick"\<close>, and every other block is as before. A \<^verbatim>\<open>"brick"\<close> is
  removed, a \<^verbatim>\<open>"brick_base"\<close> survives.
\<close>

theorem handle_mob_collide_block_fireball:
  "snd (handle_mob_collide_block a mob block) = True
   \<and> (mob_get_id (snd mob) = ''fireball'' \<longrightarrow>
        \<not> has_mob (world (fst (handle_mob_collide_block a mob block))) mob
      \<and> (\<forall>m. fst m \<noteq> fst mob \<longrightarrow>
            has_mob (world (fst (handle_mob_collide_block a mob block))) m = has_mob (world a) m)
      \<and> (has_block (world a) block \<longrightarrow>
            (\<not> has_block (world (fst (handle_mob_collide_block a mob block))) block
               \<longleftrightarrow> block_get_id (snd block) = ''brick''))
      \<and> (\<forall>b. fst b \<noteq> fst block \<longrightarrow>
            has_block (world (fst (handle_mob_collide_block a mob block))) b
              = has_block (world a) b)
      \<and> (snd block = Block ''brick'' \<longrightarrow>
            \<not> has_block (world (fst (handle_mob_collide_block a mob block))) block)
      \<and> (snd block = Block ''brick_base'' \<longrightarrow>
            blocks (world (fst (handle_mob_collide_block a mob block))) = blocks (world a)))"
  by (simp add: handle_mob_collide_block_world has_mob_remove_mob has_block_remove_block
        has_block_remove_mob has_mob_remove_block blocks_remove_mob
        handle_mob_collide_block_returns)

theorem handle_mob_collide_block_fireball_witness:
  "mob_get_id (snd (5, Fireball)) = ''fireball''
   \<and> has_mob (world sample_app) (5, Fireball)
   \<and> has_block (world sample_app) (0, Block ''brick'')
   \<and> has_block (world sample_app) (1, Block ''brick_base'')
   \<and> snd (handle_mob_collide_block sample_app (5, Fireball) (0, Block ''brick'')) = True
   \<and> \<not> has_mob (world (fst (handle_mob_collide_block sample_app (5, Fireball) (0, Block ''brick''))))
          (5, Fireball)
   \<and> \<not> has_block (world (fst (handle_mob_collide_block sample_app (5, Fireball) (0, Block ''brick''))))
          (0, Block ''brick'')
   \<and> has_block (world (fst (handle_mob_collide_block sample_app (5, Fireball) (0, Block ''brick''))))
          (1, Block ''brick_base'')
   \<and> has_mob (world (fst (handle_mob_collide_block sample_app (5, Fireball) (0, Block ''brick''))))
          (4, CloudMob)
   \<and> snd (handle_mob_collide_block sample_app (5, Fireball) (1, Block ''brick_base'')) = True
   \<and> \<not> has_mob (world (fst (handle_mob_collide_block sample_app (5, Fireball)
          (1, Block ''brick_base'')))) (5, Fireball)
   \<and> has_block (world (fst (handle_mob_collide_block sample_app (5, Fireball)
          (1, Block ''brick_base'')))) (1, Block ''brick_base'')"
  using handle_mob_collide_block_fireball [of sample_app "(5, Fireball)" "(0, Block ''brick'')"]
    handle_mob_collide_block_fireball [of sample_app "(5, Fireball)" "(1, Block ''brick_base'')"]
  by (simp add: sample_app_def sample_world_def has_mob_def has_block_def)

text \<open>
  C3. At a mob--mob contact the handler returns false in every case. When one of the two
  identifiers is \<^verbatim>\<open>"fireball"\<close> neither mob is in the world afterwards and every other
  mob is as before; otherwise the application is unchanged. For two mobs that were in
  the world, both are gone afterwards if and only if one of them is a fireball.
\<close>

theorem handle_mob_collide_mob_fireball:
  "snd (handle_mob_collide_mob a mob1 mob2) = False
   \<and> (mob_get_id (snd mob1) = ''fireball'' \<or> mob_get_id (snd mob2) = ''fireball'' \<longrightarrow>
        \<not> has_mob (world (fst (handle_mob_collide_mob a mob1 mob2))) mob1
      \<and> \<not> has_mob (world (fst (handle_mob_collide_mob a mob1 mob2))) mob2
      \<and> (\<forall>m. fst m \<noteq> fst mob1 \<and> fst m \<noteq> fst mob2 \<longrightarrow>
            has_mob (world (fst (handle_mob_collide_mob a mob1 mob2))) m = has_mob (world a) m))
   \<and> (\<not> (mob_get_id (snd mob1) = ''fireball'' \<or> mob_get_id (snd mob2) = ''fireball'') \<longrightarrow>
        fst (handle_mob_collide_mob a mob1 mob2) = a)
   \<and> (has_mob (world a) mob1 \<and> has_mob (world a) mob2 \<longrightarrow>
        (\<not> has_mob (world (fst (handle_mob_collide_mob a mob1 mob2))) mob1
         \<and> \<not> has_mob (world (fst (handle_mob_collide_mob a mob1 mob2))) mob2
         \<longleftrightarrow> mob_get_id (snd mob1) = ''fireball'' \<or> mob_get_id (snd mob2) = ''fireball''))"
  by (auto simp add: handle_mob_collide_mob_def Let_def has_mob_remove_mob)

theorem handle_mob_collide_mob_fireball_witness:
  "has_mob (world sample_app) (4, CloudMob) \<and> has_mob (world sample_app) (5, Fireball)
   \<and> has_mob (world sample_app) (6, Fireball)
   \<and> mob_get_id (snd (5, Fireball)) = ''fireball''
   \<and> snd (handle_mob_collide_mob sample_app (4, CloudMob) (5, Fireball)) = False
   \<and> \<not> has_mob (world (fst (handle_mob_collide_mob sample_app (4, CloudMob) (5, Fireball))))
          (4, CloudMob)
   \<and> \<not> has_mob (world (fst (handle_mob_collide_mob sample_app (4, CloudMob) (5, Fireball))))
          (5, Fireball)
   \<and> has_mob (world (fst (handle_mob_collide_mob sample_app (4, CloudMob) (5, Fireball))))
          (6, Fireball)
   \<and> \<not> (mob_get_id (snd (4, CloudMob)) = ''fireball'' \<or> mob_get_id (snd (7, Mob ''mushroom'' (1, 1))) = ''fireball'')
   \<and> fst (handle_mob_collide_mob sample_app (4, CloudMob) (7, Mob ''mushroom'' (1, 1))) = sample_app"
  using handle_mob_collide_mob_fireball [of sample_app "(4, CloudMob)" "(5, Fireball)"]
    handle_mob_collide_mob_fireball [of sample_app "(4, CloudMob)" "(7, Mob ''mushroom'' (1, 1))"]
  by (simp add: sample_app_def sample_world_def has_mob_def)

text \<open>
  C4. At a player--item contact the handler returns false; the application afterwards is
  the one before with the pickup effect applied to its player and the item taken out of
  the world's items, and nothing else changed. The item is no longer in the world and
  every other item is as before.
\<close>

theorem handle_player_collide_item_effect:
  "snd (handle_player_collide_item collect a p dropped_item) = False
   \<and> fst (handle_player_collide_item collect a p dropped_item)
       = a\<lparr>player := collect dropped_item (player a),
            world := (world a)\<lparr>items := filter (\<lambda>e. fst (fst e) \<noteq> fst dropped_item)
                                          (items (world a))\<rparr>\<rparr>
   \<and> player (fst (handle_player_collide_item collect a p dropped_item))
       = collect dropped_item (player a)
   \<and> \<not> has_item (world (fst (handle_player_collide_item collect a p dropped_item))) dropped_item
   \<and> (\<forall>i. fst i \<noteq> fst dropped_item \<longrightarrow>
        has_item (world (fst (handle_player_collide_item collect a p dropped_item))) i
          = has_item (world a) i)"
  by (auto simp add: handle_player_collide_item_def Let_def remove_item_def has_item_def)

theorem handle_player_collide_item_effect_witness:
  "has_item (world sample_app) (3, Coin)
   \<and> snd (handle_player_collide_item sample_collect sample_app (player sample_app) (3, Coin)) = False
   \<and> health (player (fst (handle_player_collide_item sample_collect sample_app
          (player sample_app) (3, Coin)))) = 4
   \<and> \<not> has_item (world (fst (handle_player_collide_item sample_collect sample_app
          (player sample_app) (3, Coin)))) (3, Coin)
   \<and> fst (8, DroppedItem ''star'') \<noteq> fst (3 :: nat, Coin)
   \<and> has_item (world (fst (handle_player_collide_item sample_collect sample_app
          (player sample_app) (3, Coin)))) (8, DroppedItem ''star'')
   \<and> blocks (world (fst (handle_player_collide_item sample_collect sample_app
          (player sample_app) (3, Coin)))) = blocks (world sample_app)
   \<and> mobs (world (fst (handle_player_collide_item sample_collect sample_app
          (player sample_app) (3, Coin)))) = mobs (world sample_app)"
  using handle_player_collide_item_effect
          [of sample_collect sample_app "player sample_app" "(3, Coin)"]
  by (simp add: sample_app_def sample_world_def has_item_def sample_collect_def
        change_health_def)

subsection \<open>Entity factories and the registry\<close>

text \<open>
  C5. For every symbol of the block table, \<^verbatim>\<open>create_block\<close> succeeds and appends one
  block to the world's blocks, at the grid coordinates times the block size: for
  \<^verbatim>\<open>?\<close> a mystery block built without a drop, for \<^verbatim>\<open>$\<close> a mystery block whose drop
  is \<^verbatim>\<open>"coin"\<close> with the range 3 to 6, and for every other symbol a plain block of the
  type the table maps the symbol to.
\<close>

theorem create_block_builds:
  assumes "s \<in> set (keys BLOCKS)"
  shows "\<exists>t. lookup BLOCKS s = Inr t
           \<and> create_block w s x y =
               Inr (w\<lparr>blocks := blocks w @
                        [((next_ref w,
                           if s = ''?'' then MysteryBlock None None
                           else if s = ''$'' then MysteryBlock (Some ''coin'') (Some (3, 6))
                           else Block t),
                          (x * BLOCK_SIZE, y * BLOCK_SIZE))],
                      next_ref := Suc (next_ref w)\<rparr>)"
  using assms
  by (auto simp: keys_def BLOCKS_def create_block_def lookup_def add_block_def)

text \<open>The registry that \<^verbatim>\<open>__init__\<close> sets up, and the factories on registered symbols.\<close>

lemma mario_builder_builders:
  "builders mario_builder s =
     (if s \<in> set (keys MOBS) then Some CreateMob
      else if s \<in> set (keys ITEMS) then Some CreateItem
      else if s \<in> set (keys BLOCKS) then Some CreateBlock
      else None)"
  by (simp add: mario_builder_def register_builders_def WorldBuilder_def keys_def
        BLOCKS_def ITEMS_def MOBS_def)

lemma fallback_mario_builder: "fallback mario_builder = CreateUnknown"
  by (simp add: mario_builder_def register_builders_def WorldBuilder_def)

lemma create_unknown_world:
  "create_unknown w s x y =
     Inr (w\<lparr>things := things w @
              [((next_ref w, Entity), (x * BLOCK_SIZE, y * BLOCK_SIZE), (BLOCK_SIZE, BLOCK_SIZE))],
            next_ref := Suc (next_ref w)\<rparr>)"
  by (simp add: create_unknown_def add_thing_def)

lemma create_item_registered:
  "s \<in> set (keys ITEMS) \<Longrightarrow> \<exists>w'. create_item w s x y = Inr w'"
  by (auto simp: keys_def ITEMS_def create_item_def lookup_def)

lemma create_mob_registered:
  "s \<in> set (keys MOBS) \<Longrightarrow> \<exists>w'. create_mob w s x y = Inr w'"
  by (auto simp: keys_def MOBS_def create_mob_def lookup_def)

lemma create_block_registered:
  "s \<in> set (keys BLOCKS) \<Longrightarrow> \<exists>w'. create_block w s x y = Inr w'"
  by (auto simp: keys_def BLOCKS_def create_block_def lookup_def)

lemma on_placement_mario_builder: "\<exists>w'. on_placement mario_builder w s x y = Inr w'"
  by (simp add: on_placement_def mario_builder_builders fallback_mario_builder
        create_unknown_world create_item_registered create_mob_registered
        create_block_registered)

lemma place_all_mario_builder: "\<exists>w'. place_all mario_builder w ps = Inr w'"
proof (induction ps arbitrary: w)
  case Nil
  show ?case by simp
next
  case (Cons p ps)
  obtain s x y where p: "p = (s, x, y)" by (cases p) auto
  obtain w1 where "on_placement mario_builder w s x y = Inr w1"
    using on_placement_mario_builder by blast
  with Cons.IH [of w1] p show ?case by simp
qed

theorem create_block_builds_witness:
  "''$'' \<in> set (keys BLOCKS) \<and> ''?'' \<in> set (keys BLOCKS) \<and> ''%'' \<in> set (keys BLOCKS)
   \<and> create_block sample_world ''$'' 4 6 =
       Inr (sample_world\<lparr>blocks := blocks sample_world @
              [((9, MysteryBlock (Some ''coin'') (Some (3, 6))), (64, 96))], next_ref := 10\<rparr>)
   \<and> create_block sample_world ''?'' 3 6 =
       Inr (sample_world\<lparr>blocks := blocks sample_world @
              [((9, MysteryBlock None None), (48, 96))], next_ref := 10\<rparr>)
   \<and> create_block sample_world ''%'' 1 10 =
       Inr (sample_world\<lparr>blocks := blocks sample_world @
              [((9, Block ''brick_base''), (16, 160))], next_ref := 10\<rparr>)"
  using create_block_builds [of "''$''" sample_world 4 6]
    create_block_builds [of "''?''" sample_world 3 6]
    create_block_builds [of "''%''" sample_world 1 10]
  by (auto simp: keys_def BLOCKS_def lookup_def BLOCK_SIZE_def sample_world_def)

text \<open>
  C6. The builder of the application falls back to \<^verbatim>\<open>create_unknown\<close>, and a symbol
  is unregistered in it exactly when it is in none of the three tables. For a symbol
  that a builder with this fallback has not registered, the placement succeeds and
  appends exactly one generic entity to the world, at the grid coordinates times the
  block size and of one block's size, leaving blocks, items and mobs as they are.
  Placing any list of symbols with the application's builder succeeds.
\<close>

theorem on_placement_unknown:
  "fallback mario_builder = CreateUnknown
   \<and> (builders mario_builder s = None
        \<longleftrightarrow> s \<notin> set (keys BLOCKS) \<union> set (keys ITEMS) \<union> set (keys MOBS))
   \<and> (builders b s = None \<and> fallback b = CreateUnknown \<longrightarrow>
        on_placement b w s x y =
          Inr (w\<lparr>things := things w @
                   [((next_ref w, Entity), (x * BLOCK_SIZE, y * BLOCK_SIZE),
                     (BLOCK_SIZE, BLOCK_SIZE))],
                 next_ref := Suc (next_ref w)\<rparr>))
   \<and> (\<exists>w'. place_all mario_builder w ps = Inr w')"
  by (simp add: fallback_mario_builder mario_builder_builders on_placement_def
        create_unknown_world place_all_mario_builder)

theorem on_placement_unknown_witness:
  "''x'' \<notin> set (keys BLOCKS) \<union> set (keys ITEMS) \<union> set (keys MOBS)
   \<and> builders mario_builder ''x'' = None \<and> fallback mario_builder = CreateUnknown
   \<and> on_placement mario_builder sample_world ''x'' 8 8 =
       Inr (sample_world\<lparr>things := things sample_world @ [((9, Entity), (128, 128), (16, 16))],
                         next_ref := 10\<rparr>)
   \<and> place_all mario_builder sample_world [(''x'', 8, 8), (''#'', 0, 10)] =
       Inr (sample_world\<lparr>things := things sample_world @ [((9, Entity), (128, 128), (16, 16))],
                         blocks := blocks sample_world @ [((10, Block ''brick''), (0, 160))],
                         next_ref := 11\<rparr>)"
proof -
  note t = on_placement_unknown
             [of "''x''" mario_builder sample_world 8 8 "[(''x'', 8, 8), (''#'', 0, 10)]"]
  have k: "''x'' \<notin> set (keys BLOCKS) \<union> set (keys ITEMS) \<union> set (keys MOBS)"
    by (simp add: keys_def BLOCKS_def ITEMS_def MOBS_def)
  from t have f: "fallback mario_builder = CreateUnknown" by blast
  from t k have n: "builders mario_builder ''x'' = None" by blast
  from t n f have "on_placement mario_builder sample_world ''x'' 8 8 =
      Inr (sample_world\<lparr>things := things sample_world @
             [((next_ref sample_world, Entity), (8 * BLOCK_SIZE, 8 * BLOCK_SIZE),
               (BLOCK_SIZE, BLOCK_SIZE))],
           next_ref := Suc (next_ref sample_world)\<rparr>)"
    by blast
  then have p: "on_placement mario_builder sample_world ''x'' 8 8 =
      Inr (sample_world\<lparr>things := things sample_world @ [((9, Entity), (128, 128), (16, 16))],
                        next_ref := 10\<rparr>)"
    by (simp add: BLOCK_SIZE_def sample_world_def)
  have "place_all mario_builder sample_world [(''x'', 8, 8), (''#'', 0, 10)] =
      Inr (sample_world\<lparr>things := things sample_world @ [((9, Entity), (128, 128), (16, 16))],
                        blocks := blocks sample_world @ [((10, Block ''brick''), (0, 160))],
                        next_ref := 11\<rparr>)"
    by (simp add: on_placement_def mario_builder_builders fallback_mario_builder
          create_unknown_world keys_def BLOCKS_def ITEMS_def
          MOBS_def create_block_def lookup_def add_block_def BLOCK_SIZE_def sample_world_def)
  with k f n p show ?thesis by blast
qed

subsection \<open>The game loop and the level reload\<close>

text \<open>What \<^verbatim>\<open>scroll\<close> and a tick leave untouched, and what a tick does to the death flag.\<close>

lemma scroll_fields:
  "player (scroll a) = player a" "world (scroll a) = world a"
  "death_action (scroll a) = death_action a" "death_popups (scroll a) = death_popups a"
  "builder (scroll a) = builder a" "level_holder (scroll a) = level_holder a"
  "master_width (scroll a) = master_width a"
  by (simp_all add: scroll_def Let_def set_offset_def)

lemma step_player: "player (step ph a) = snd (ph (world a, player a))"
  by (simp add: step_def Let_def on_death_def scroll_fields split: prod.split)

lemma step_death_popups:
  "death_popups (step ph a) =
     (if health (snd (ph (world a, player a))) = 0 \<and> \<not> death_action a
      then Suc (death_popups a) else death_popups a)"
  by (simp add: step_def Let_def on_death_def scroll_fields get_health_def split: prod.split)

lemma step_death_action:
  "death_action (step ph a) \<longleftrightarrow> death_action a \<or> health (snd (ph (world a, player a))) = 0"
  by (auto simp add: step_def Let_def on_death_def scroll_fields get_health_def split: prod.split)

lemma ticks_flag_set:
  "death_action a \<Longrightarrow> death_action (ticks phs a) \<and> death_popups (ticks phs a) = death_popups a"
  by (induction phs arbitrary: a) (simp_all add: step_death_action step_death_popups)

lemma ticks_stays_dead:
  "phs \<noteq> [] \<Longrightarrow> \<not> death_action a \<Longrightarrow> stays_dead phs a \<Longrightarrow>
     death_action (ticks phs a) \<and> death_popups (ticks phs a) = Suc (death_popups a)"
proof (cases phs)
  case Nil
  assume "phs \<noteq> []" with Nil show ?thesis by simp
next
  case (Cons ph rest)
  assume fl: "\<not> death_action a" and sd: "stays_dead phs a"
  from sd Cons have h0: "health (snd (ph (world a, player a))) = 0"
    by (simp add: step_player get_health_def)
  with fl have "death_action (step ph a)" "death_popups (step ph a) = Suc (death_popups a)"
    by (simp_all add: step_death_action step_death_popups)
  with ticks_flag_set [of "step ph a" rest] Cons show ?thesis by simp
qed

text \<open>Loading with an empty registry, and the attributes after a reload.\<close>

lemma step_builder: "builder (step ph a) = builder a"
  by (simp add: step_def Let_def on_death_def scroll_fields split: prod.split)

lemma place_all_fallback:
  "builders b = Map.empty \<Longrightarrow> fallback b = CreateUnknown \<Longrightarrow> \<exists>w'. place_all b w ps = Inr w'"
proof (induction ps arbitrary: w)
  case Nil
  show ?case by simp
next
  case (Cons p ps)
  obtain s x y where p: "p = (s, x, y)" by (cases p) auto
  from Cons.prems obtain w1 where "on_placement b w s x y = Inr w1"
    by (simp add: on_placement_def create_unknown_world)
  with Cons.IH [OF Cons.prems, of w1] p show ?case by simp
qed

lemma reset_world_dead_app: "reset_world sample_source dead_app ''level1.txt'' = Inr reloaded_app"
proof -
  have b: "builder dead_app = clear mario_builder"
    by (simp add: dead_app_def step_builder sample_app_def)
  have "\<exists>w. load_world sample_source (builder dead_app) ''level1.txt'' = Inr w"
    unfolding b load_world_def sample_source_def
    by (simp add: place_all_fallback clear_def fallback_mario_builder)
  then obtain w where "load_world sample_source (builder dead_app) ''level1.txt'' = Inr w" ..
  then have "\<exists>a. reset_world sample_source dead_app ''level1.txt'' = Inr a"
    by (simp add: reset_world_def Let_def split: prod.split)
  then show ?thesis by (auto simp: reloaded_app_def)
qed

lemma setup_collision_handlers_fields:
  "player (setup_collision_handlers a) = player a"
  "death_action (setup_collision_handlers a) = death_action a"
  by (simp_all add: setup_collision_handlers_def Let_def)

lemma reset_world_player:
  "reset_world src a new_level = Inr a' \<Longrightarrow>
     player a' = change_health
                   ((player a)\<lparr>position := (real_of_int BLOCK_SIZE, real_of_int BLOCK_SIZE)\<rparr>)
                   (max_health (player a))"
  by (auto simp: reset_world_def Let_def add_player_def setup_collision_handlers_fields
        get_max_health_def split: sum.splits)

lemma reset_world_flag:
  "reset_world src a new_level = Inr a' \<Longrightarrow> \<not> death_action a' \<and> death_popups a' = death_popups a"
  by (auto simp: reset_world_def Let_def add_player_def setup_collision_handlers_def
        split: sum.splits)

text \<open>
  The loop once the application is constructed. A tick opens the death window if and
  only if the player's health after the physics step is 0 and the death flag is not
  set, and otherwise opens none; \<^verbatim>\<open>on_death\<close> sets the flag and opens one window. Over
  any non-empty run of ticks at whose checks the health is 0, starting with the flag
  clear, exactly one window is opened. Once the flag is set no run of ticks opens a
  window or clears the flag, whatever the health; no key handler touches the flag; a
  reload that succeeds clears it.
\<close>

theorem step_death_once:
  "player (step ph a) = snd (ph (world a, player a))
   \<and> (death_popups (step ph a) = Suc (death_popups a)
        \<longleftrightarrow> health (snd (ph (world a, player a))) = 0 \<and> \<not> death_action a)
   \<and> (death_popups (step ph a) \<noteq> Suc (death_popups a)
        \<longrightarrow> death_popups (step ph a) = death_popups a)
   \<and> death_action (on_death a) \<and> death_popups (on_death a) = Suc (death_popups a)
   \<and> (death_action (step ph a) \<longleftrightarrow> death_action a \<or> health (snd (ph (world a, player a))) = 0)
   \<and> (phs \<noteq> [] \<and> \<not> death_action a \<and> stays_dead phs a \<longrightarrow>
        death_popups (ticks phs a) = Suc (death_popups a) \<and> death_action (ticks phs a))
   \<and> (death_action a \<longrightarrow>
        death_popups (ticks phs a) = death_popups a \<and> death_action (ticks phs a))
   \<and> death_action (bind k a) = death_action a \<and> death_popups (bind k a) = death_popups a
   \<and> (reset_world src a new_level = Inr a' \<longrightarrow> \<not> death_action a')"
proof -
  have keys: "death_action (bind k a) = death_action a \<and> death_popups (bind k a) = death_popups a"
    by (cases k) (simp_all add: jump_def move_def duck_def)
  have reload: "reset_world src a new_level = Inr a' \<longrightarrow> \<not> death_action a'"
    using reset_world_flag [of src a new_level a'] by blast
  have death: "death_action (on_death a) \<and> death_popups (on_death a) = Suc (death_popups a)"
    by (simp add: on_death_def Let_def)
  show ?thesis
    using keys reload death ticks_flag_set [of a phs] ticks_stays_dead [of phs a]
    by (simp add: step_player step_death_popups step_death_action)
qed

theorem step_death_once_witness:
  "[lethal, idle, idle] \<noteq> [] \<and> \<not> death_action sample_app
   \<and> stays_dead [lethal, idle, idle] sample_app
   \<and> death_popups sample_app = 0
   \<and> death_popups (ticks [lethal, idle, idle] sample_app) = 1
   \<and> death_action (ticks [lethal, idle, idle] sample_app)
   \<and> death_action dead_app
   \<and> death_popups (ticks [idle, lethal, idle] dead_app) = death_popups dead_app
   \<and> health (snd (idle (world sample_app, player sample_app))) \<noteq> 0
   \<and> death_popups (step idle sample_app) = death_popups sample_app
   \<and> reset_world sample_source dead_app ''level1.txt'' = Inr reloaded_app
   \<and> \<not> death_action reloaded_app"
proof -
  have l: "\<And>w p. health (snd (lethal (w, p))) = 0"
    by (simp add: lethal_def)
  have i: "\<And>w p. snd (idle (w, p)) = p"
    by (simp add: idle_def)
  have f: "\<not> death_action sample_app" "death_popups sample_app = 0"
    by (simp_all add: sample_app_def)
  have sd: "stays_dead [lethal, idle, idle] sample_app"
    by (simp add: step_player get_health_def l i)
  have d: "death_action dead_app"
    by (simp add: dead_app_def step_death_action l)
  have h: "health (snd (idle (world sample_app, player sample_app))) \<noteq> 0"
    by (simp add: i sample_app_def)
  note t1 = step_death_once [of lethal sample_app "[lethal, idle, idle]"]
  note t2 = step_death_once [where a = dead_app and phs = "[idle, lethal, idle]"
                              and src = sample_source and new_level = "''level1.txt''"
                              and a' = reloaded_app]
  note r = reset_world_dead_app
  note t3 = step_death_once [of idle sample_app]
  from t1 f sd have "death_popups (ticks [lethal, idle, idle] sample_app) = 1"
    "death_action (ticks [lethal, idle, idle] sample_app)" by simp_all
  moreover from t2 d have "death_popups (ticks [idle, lethal, idle] dead_app) = death_popups dead_app"
    by blast
  moreover from t3 h have "death_popups (step idle sample_app) = death_popups sample_app"
    by blast
  moreover from t2 r have "\<not> death_action reloaded_app"
    by blast
  ultimately show ?thesis using f sd d h r by simp
qed

text \<open>
  The constructor: what \<^verbatim>\<open>__init__\<close> returns is the first load followed by one tick,
  with the death flag cleared afterwards.
\<close>

lemma load_world_mario_builder:
  "src name = Some lv \<Longrightarrow> \<exists>w. load_world src mario_builder name = Inr w"
  by (simp add: load_world_def place_all_mario_builder)

lemma MarioApp_cases:
  assumes "MarioApp src ph width = Inr a"
  obtains a1 where
    "reset_world src \<lparr>master_width = width, builder = mario_builder, player = Player 5,
        world = World (0, 0) (0, 0), level_holder = [], offset = (0, 0),
        death_action = False, death_popups = 0\<rparr> ''level1.txt'' = Inr a1"
    and "a = (step ph (a1\<lparr>level_holder := ''level1.txt''\<rparr>))\<lparr>death_action := False\<rparr>"
  using assms by (auto simp: MarioApp_def Let_def split: sum.splits)

lemma MarioApp_flag:
  assumes "MarioApp src ph width = Inr a"
  shows "\<not> death_action a"
    and "death_popups a = (if health (player a) = 0 then 1 else 0)"
proof -
  from assms obtain a1 where
    r: "reset_world src \<lparr>master_width = width, builder = mario_builder, player = Player 5,
        world = World (0, 0) (0, 0), level_holder = [], offset = (0, 0),
        death_action = False, death_popups = 0\<rparr> ''level1.txt'' = Inr a1"
    and a: "a = (step ph (a1\<lparr>level_holder := ''level1.txt''\<rparr>))\<lparr>death_action := False\<rparr>"
    by (rule MarioApp_cases)
  from reset_world_flag [OF r] have f: "\<not> death_action a1" "death_popups a1 = 0" by simp_all
  show "\<not> death_action a" by (simp add: a)
  show "death_popups a = (if health (player a) = 0 then 1 else 0)"
    using f by (simp add: a step_death_popups step_player)
qed

lemma MarioApp_started: "MarioApp sample_source lethal 800 = Inr started_app"
proof -
  have "\<exists>w. load_world sample_source mario_builder ''level1.txt'' = Inr w"
    by (rule load_world_mario_builder [of _ _ level1]) (simp add: sample_source_def)
  then obtain w where "load_world sample_source mario_builder ''level1.txt'' = Inr w" ..
  then have "\<exists>a. MarioApp sample_source lethal 800 = Inr a"
    by (simp add: MarioApp_def reset_world_def Let_def split: prod.split)
  then show ?thesis by (auto simp: started_app_def)
qed

lemma MarioApp_player:
  assumes "MarioApp src ph width = Inr a"
  shows "\<exists>w p. player a = snd (ph (w, p))"
proof -
  from assms obtain a1 where
    a: "a = (step ph (a1\<lparr>level_holder := ''level1.txt''\<rparr>))\<lparr>death_action := False\<rparr>"
    by (rule MarioApp_cases)
  show ?thesis by (auto simp add: a step_player)
qed

text \<open>
  C7 asks that the death window opens exactly once per life, and again only after a
  level (re)load has cleared the flag. The constructor breaks this. It loads the level,
  runs the first tick and only then assigns \<^verbatim>\<open>self._death_action = False\<close>: when the
  first tick leaves the player without health, the window is opened, the flag is
  cleared with no reload, and the next tick, the health still 0, opens the window a
  second time in the same life. Later ticks open no third one.
\<close>

theorem MarioApp_death_twice:
  "MarioApp sample_source lethal 800 = Inr started_app
   \<and> health (player started_app) = 0
   \<and> death_popups started_app = 1
   \<and> \<not> death_action started_app
   \<and> health (snd (idle (world started_app, player started_app))) = 0
   \<and> death_popups (step idle started_app) = 2
   \<and> death_popups (ticks [idle, idle, idle] started_app) = 2"
proof -
  note s = MarioApp_started
  from MarioApp_player [OF s] have h: "health (player started_app) = 0"
    by (auto simp: lethal_def)
  from MarioApp_flag [OF s] h have f: "\<not> death_action started_app" "death_popups started_app = 1"
    by simp_all
  have i: "\<And>w p. snd (idle (w, p)) = p" by (simp add: idle_def)
  from h f have one: "death_popups (step idle started_app) = 2" "death_action (step idle started_app)"
    by (simp_all add: step_death_popups step_death_action i)
  from ticks_flag_set [OF one(2), of "[idle, idle]"] one(1)
  have "death_popups (ticks [idle, idle, idle] started_app) = 2" by simp
  with s h f one i show ?thesis by simp
qed

text \<open>
  C8. After a reload that completes, for a player whose health was not negative, the
  health equals the maximum health, which is unchanged, and the death flag is clear,
  whatever they were before; the next tick at whose check the health is 0 opens the
  death window again.
\<close>

theorem reset_world_restores:
  assumes "reset_world src a new_level = Inr a'" and "0 \<le> health (player a)"
  shows "health (player a') = max_health (player a')
       \<and> max_health (player a') = max_health (player a)
       \<and> \<not> death_action a'
       \<and> (health (snd (ph (world a', player a'))) = 0 \<longrightarrow>
            death_action (step ph a') \<and> death_popups (step ph a') = Suc (death_popups a'))"
proof -
  note pl = reset_world_player [OF assms(1)]
  from reset_world_flag [OF assms(1)] have flag: "\<not> death_action a'" by simp
  from assms(2) have h: "health (player a') = max_health (player a)"
    unfolding pl by (simp add: change_health_def Let_def)
  have m: "max_health (player a') = max_health (player a)"
    unfolding pl by (simp add: change_health_def Let_def)
  from flag h m show ?thesis
    by (simp add: step_death_action step_death_popups)
qed

theorem reset_world_restores_witness:
  "reset_world sample_source dead_app ''level1.txt'' = Inr reloaded_app
   \<and> health (player dead_app) = 0 \<and> (0::int) \<le> health (player dead_app)
   \<and> death_action dead_app \<and> death_popups dead_app = 1
   \<and> max_health (player dead_app) = 5
   \<and> health (player reloaded_app) = 5
   \<and> \<not> death_action reloaded_app
   \<and> health (snd (lethal (world reloaded_app, player reloaded_app))) = 0
   \<and> death_action (step lethal reloaded_app)
   \<and> death_popups (step lethal reloaded_app) = 2"
proof -
  have l: "\<And>w p. health (snd (lethal (w, p))) = 0" by (simp add: lethal_def)
  have i: "\<And>w p. snd (idle (w, p)) = p" by (simp add: idle_def)
  have h: "health (player dead_app) = 0"
    by (simp add: dead_app_def step_player l i)
  have m: "max_health (player dead_app) = 5"
    by (simp add: dead_app_def step_player lethal_def idle_def sample_app_def)
  have d: "death_action dead_app" "death_popups dead_app = 1"
    by (simp_all add: dead_app_def step_death_action step_death_popups l i sample_app_def)
  note r = reset_world_dead_app
  have hz: "0 \<le> health (player dead_app)" using h by simp
  note t = reset_world_restores [OF r hz, of lethal]
  have p: "death_popups reloaded_app = 1"
    using reset_world_flag [OF r] d by simp
  from t m l p h d r show ?thesis by simp
qed

subsection \<open>Key handlers\<close>

text \<open>
  C9. Every key handler returns the application with at most the player's velocity
  changed: the world, the player's health, maximum health and position, the death flag,
  the camera offset and every other attribute are as before. The three duck keys
  change nothing at all, and \<^verbatim>\<open>_duck\<close> returns true.
\<close>

theorem bind_changes_velocity_only:
  "bind k a = a\<lparr>player := (player a)\<lparr>velocity := velocity (player (bind k a))\<rparr>\<rparr>
   \<and> world (bind k a) = world a
   \<and> health (player (bind k a)) = health (player a)
   \<and> max_health (player (bind k a)) = max_health (player a)
   \<and> position (player (bind k a)) = position (player a)
   \<and> death_action (bind k a) = death_action a
   \<and> death_popups (bind k a) = death_popups a
   \<and> offset (bind k a) = offset a
   \<and> level_holder (bind k a) = level_holder a
   \<and> master_width (bind k a) = master_width a
   \<and> builder (bind k a) = builder a
   \<and> (k \<in> {Key_s, Key_Down, Key_S} \<longrightarrow> bind k a = a)
   \<and> duck a = (a, True)"
  by (cases k) (simp_all add: jump_def move_def duck_def set_velocity_def)

theorem bind_changes_velocity_only_witness:
  "Key_Down \<in> {Key_s, Key_Down, Key_S} \<and> bind Key_Down sample_app = sample_app
   \<and> velocity (player sample_app) = (50, 20)
   \<and> velocity (player (bind Key_Left sample_app)) = (- 500, 0)
   \<and> world (bind Key_Left sample_app) = sample_world
   \<and> health (player (bind Key_Left sample_app)) = 3
   \<and> position (player (bind Key_Left sample_app)) = (100, 16)
   \<and> \<not> death_action (bind Key_Left sample_app)
   \<and> offset (bind Key_Left sample_app) = (0, 0)"
  using bind_changes_velocity_only [of Key_Down sample_app]
    bind_changes_velocity_only [of Key_Left sample_app]
  by (simp add: sample_app_def move_def set_velocity_def)

text \<open>
  C10. Whatever the player's state, \<^verbatim>\<open>_jump\<close> leaves the velocity at (0, -150) and
  \<^verbatim>\<open>_move\<close> leaves it at its arguments: the four jump keys give (0, -150), and the
  move keys give (-50, 0), (-500, 0), (50, 0) and (500, 0), the old velocity playing no
  part.
\<close>

theorem jump_move_replace_velocity:
  "velocity (player (jump a)) = (0, - 150)
   \<and> velocity (player (move a dx dy)) = (dx, dy)
   \<and> velocity (player (bind Key_Up a)) = (0, - 150)
   \<and> velocity (player (bind Key_space a)) = (0, - 150)
   \<and> velocity (player (bind Key_w a)) = (0, - 150)
   \<and> velocity (player (bind Key_W a)) = (0, - 150)
   \<and> velocity (player (bind Key_a a)) = (- 50, 0)
   \<and> velocity (player (bind Key_Left a)) = (- 500, 0)
   \<and> velocity (player (bind Key_A a)) = (- 500, 0)
   \<and> velocity (player (bind Key_d a)) = (50, 0)
   \<and> velocity (player (bind Key_Right a)) = (500, 0)
   \<and> velocity (player (bind Key_D a)) = (500, 0)"
  by (simp add: jump_def move_def set_velocity_def)

theorem jump_move_replace_velocity_witness:
  "velocity (player sample_app) = (50, 20)
   \<and> velocity (player (jump sample_app)) = (0, - 150)
   \<and> velocity (player (bind Key_d (jump sample_app))) = (50, 0)
   \<and> velocity (player (jump (bind Key_d (jump sample_app)))) = (0, - 150)"
  using jump_move_replace_velocity [of sample_app]
    jump_move_replace_velocity [of "jump sample_app"]
    jump_move_replace_velocity [of "bind Key_d (jump sample_app)"]
  by (simp add: sample_app_def)

end
